theory Spec2Isabelle
  imports Main "HOL-Library.Word"
begin

unbundle bit_operations_syntax

section \<open>Input label translation (\<open>ioev_ctxtbl\<close>, libretro frameserver)\<close>

text \<open>
  The libretro frameserver keeps \<open>bool joypad[MAX_PORTS][MAX_BUTTONS]\<close> inside
  \<open>retroctx.inputmatr\<close>. \<open>ioev_ctxtbl\<close> reads the label of an I/O event with
  \<open>sscanf\<close>, \<open>strchr\<close> and \<open>strcmp\<close> and stores the event's value in one cell
  of that matrix.
\<close>

definition MAX_PORTS :: int where
  "MAX_PORTS = 4"

definition MAX_BUTTONS :: int where
  "MAX_BUTTONS = 12"

text \<open>
  The \<open>RETRO_DEVICE_ID_JOYPAD_*\<close> constants come from \<open>libretro.h\<close>, which is not
  part of the sources: the translation takes them as a parameter. \<open>libretro_ids\<close>
  holds the numbering of the libretro API and is used for concrete runs only.
\<close>

record retro_ids =
  JOYPAD_B :: int
  JOYPAD_Y :: int
  JOYPAD_SELECT :: int
  JOYPAD_START :: int
  JOYPAD_UP :: int
  JOYPAD_DOWN :: int
  JOYPAD_LEFT :: int
  JOYPAD_RIGHT :: int
  JOYPAD_A :: int
  JOYPAD_X :: int
  JOYPAD_L :: int
  JOYPAD_R :: int

definition libretro_ids :: retro_ids where
  "libretro_ids = \<lparr> JOYPAD_B = 0, JOYPAD_Y = 1, JOYPAD_SELECT = 2, JOYPAD_START = 3,
     JOYPAD_UP = 4, JOYPAD_DOWN = 5, JOYPAD_LEFT = 6, JOYPAD_RIGHT = 7,
     JOYPAD_A = 8, JOYPAD_X = 9, JOYPAD_L = 10, JOYPAD_R = 11 \<rparr>"

text \<open>\<open>static int remaptbl[]\<close>, in the order of the source.\<close>

definition remaptbl :: "retro_ids \<Rightarrow> int list" where
  "remaptbl R = [JOYPAD_A R, JOYPAD_B R, JOYPAD_X R, JOYPAD_Y R, JOYPAD_L R, JOYPAD_R R]"

subsection \<open>The C library calls on the label\<close>

text \<open>
  A label is the characters of the C string before its terminator. \<open>%d\<close> skips white
  space, reads an optional sign and then at least one decimal digit. The digits are
  converted as \<open>strtol\<close> converts them, which stops at the ends of the range of
  \<open>long\<close> (64 bits), and the result is stored into an \<open>int\<close>, which keeps its low
  32 bits in two's complement: \<open>4294967297\<close> is stored as 1.
\<close>

definition store_int :: "int \<Rightarrow> int" where
  "store_int v = sint (word_of_int (max (- (2 ^ 63)) (min (2 ^ 63 - 1) v)) :: 32 word)"

definition isspace :: "char \<Rightarrow> bool" where
  "isspace c = (of_char c \<in> {9, 10, 11, 12, 13, 32 :: nat})"

definition isdigit :: "char \<Rightarrow> bool" where
  "isdigit c = (48 \<le> (of_char c :: nat) \<and> (of_char c :: nat) \<le> 57)"

definition digit_val :: "char \<Rightarrow> int" where
  "digit_val c = int (of_char c) - 48"

fun scan_digits :: "string \<Rightarrow> int \<Rightarrow> int" where
  "scan_digits [] acc = acc"
| "scan_digits (c # cs) acc =
     (if isdigit c then scan_digits cs (acc * 10 + digit_val c) else acc)"

definition starts_with_digit :: "string \<Rightarrow> bool" where
  "starts_with_digit s = (case s of [] \<Rightarrow> False | c # _ \<Rightarrow> isdigit c)"

definition scan_d :: "string \<Rightarrow> int option" where
  "scan_d s =
     (let t = dropWhile isspace s in
      case t of
        [] \<Rightarrow> None
      | c # cs \<Rightarrow>
          if c = CHR ''-'' then
            (if starts_with_digit cs then Some (store_int (- scan_digits cs 0)) else None)
          else if c = CHR ''+'' then
            (if starts_with_digit cs then Some (store_int (scan_digits cs 0)) else None)
          else if isdigit c then Some (store_int (scan_digits t 0))
          else None)"

text \<open>
  \<open>sscanf_d s lit\<close> is \<open>sscanf(s, "<lit>%d...", &v)\<close>: \<open>Some v\<close> when the call
  returns 1 (the literal matched and the conversion stored \<open>v\<close>), \<open>None\<close> when it
  returns 0 or EOF and leaves the variable alone. Literal text after \<open>%d\<close> in the
  format does not change the return value.
\<close>

definition sscanf_d :: "string \<Rightarrow> string \<Rightarrow> int option" where
  "sscanf_d s lit =
     (if take (length lit) s = lit then scan_d (drop (length lit) s) else None)"

text \<open>\<open>strchr(label, '_')\<close> followed by \<open>subtype++\<close>; \<open>None\<close> is the null pointer.\<close>

definition strchr_underscore :: "string \<Rightarrow> string option" where
  "strchr_underscore s =
     (case dropWhile (\<lambda>c. c \<noteq> CHR ''_'') s of [] \<Rightarrow> None | _ # rest \<Rightarrow> Some rest)"

subsection \<open>Events and the input matrix\<close>

datatype idatatype = EVENT_IDATATYPE_TRANSLATED | EVENT_IDATATYPE_DIGITAL | EVENT_IDATATYPE_ANALOG

record arcan_event =
  label :: string
  datatype_io :: idatatype
  translated_active :: bool
  digital_active :: bool

text \<open>
  \<open>signed value = datatype == EVENT_IDATATYPE_TRANSLATED ? translated.active :
  digital.active\<close>; stored into a \<open>bool\<close> cell it is the flag itself.
\<close>

definition io_value :: "arcan_event \<Rightarrow> bool" where
  "io_value ev =
     (if datatype_io ev = EVENT_IDATATYPE_TRANSLATED then translated_active ev
      else digital_active ev)"

text \<open>
  The matrix is the memory that starts at \<open>&joypad[0][0]\<close>, addressed in cells:
  \<open>joypad[p][b]\<close> is the cell at \<open>p * MAX_BUTTONS + b\<close>, as the C array is laid
  out row after row. The source checks no upper bound on the column before it stores, so
  the model keeps the address the store really goes to: a column past the end of a row is
  a cell of a later row, and an address from 48 on is memory behind the matrix.
\<close>

type_synonym joypad_mem = "nat \<Rightarrow> bool"

definition joypad_addr :: "int \<Rightarrow> int \<Rightarrow> nat" where
  "joypad_addr p b = nat (p * MAX_BUTTONS + b)"

definition joypad_at :: "joypad_mem \<Rightarrow> int \<Rightarrow> int \<Rightarrow> bool" where
  "joypad_at m p b = m (joypad_addr p b)"

definition no_input :: joypad_mem where
  "no_input a = False"

text \<open>
  The value of \<open>button\<close> after the \<open>if / else if\<close> chain on \<open>subtype\<close>. It starts at
  \<open>-1\<close>; \<open>sscanf(subtype, "BUTTON%d", &button)\<close> stores into it before the range test
  of the same condition is made.
\<close>

definition subtype_chain :: "retro_ids \<Rightarrow> string \<Rightarrow> int \<Rightarrow> int" where
  "subtype_chain R subtype button =
     (if (case sscanf_d subtype ''AXIS'' of
            Some axis \<Rightarrow> axis > 0 \<and> axis \<le> 2 | None \<Rightarrow> False) then button
      else if subtype = ''UP'' then JOYPAD_UP R
      else if subtype = ''DOWN'' then JOYPAD_DOWN R
      else if subtype = ''LEFT'' then JOYPAD_LEFT R
      else if subtype = ''RIGHT'' then JOYPAD_RIGHT R
      else if subtype = ''SELECT'' then JOYPAD_SELECT R
      else if subtype = ''START'' then JOYPAD_START R
      else button)"

definition button_of :: "retro_ids \<Rightarrow> string \<Rightarrow> int" where
  "button_of R subtype =
     (case sscanf_d subtype ''BUTTON'' of
        Some b \<Rightarrow>
          if b > 0 \<and> b \<le> MAX_BUTTONS - 6 then
            (if b - 1 > int (length (remaptbl R)) - 1 then -1
             else remaptbl R ! nat (b - 1))
          else subtype_chain R subtype b
      | None \<Rightarrow> subtype_chain R subtype (-1))"

definition ioev_ctxtbl :: "retro_ids \<Rightarrow> arcan_event \<Rightarrow> joypad_mem \<Rightarrow> joypad_mem" where
  "ioev_ctxtbl R ioev m =
     (case sscanf_d (label ioev) ''PLAYER'' of
        None \<Rightarrow> m
      | Some ind \<Rightarrow>
          if ind > 0 \<and> ind < MAX_PORTS then
            (case strchr_underscore (label ioev) of
               None \<Rightarrow> m
             | Some subtype \<Rightarrow>
                 (let button = button_of R subtype in
                  if button \<ge> 0 then m(joypad_addr (ind - 1) button := io_value ioev)
                  else m))
          else m)"

definition press :: "string \<Rightarrow> arcan_event" where
  "press l = \<lparr> label = l, datatype_io = EVENT_IDATATYPE_DIGITAL,
     translated_active = False, digital_active = True \<rparr>"

section \<open>Audio accumulator (\<open>libretro_audcb\<close>, \<open>libretro_audscb\<close>)\<close>

text \<open>
  \<open>retroctx.audbuf\<close> points at \<open>audbuf_nsamples * sizeof(int16_t)\<close> bytes from
  \<open>malloc\<close>: the samples at index \<open>0 .. audbuf_nsamples - 1\<close>. The two callbacks
  store at \<open>audbuf_used\<close> first and reduce \<open>audbuf_used\<close> afterwards, with no test
  against the size of the allocation, so \<open>audbuf\<close> is modelled as the memory that
  starts at the pointer, addressed in samples: an index from \<open>audbuf_nsamples\<close> on is
  memory behind the allocation. \<open>audbuf_nsamples\<close> is an \<open>unsigned\<close>,
  \<open>audbuf_used\<close> a \<open>size_t\<close>.
\<close>

record audio_ctx =
  audbuf :: "nat \<Rightarrow> 16 word"
  audbuf_nsamples :: "32 word"
  audbuf_used :: "64 word"

text \<open>
  \<open>memcpy(&audbuf[audbuf_used], data, nframes * sizeof(int16_t) * 2)\<close>: the byte
  count is computed in \<open>size_t\<close>; every two bytes are one sample.
\<close>

definition memcpy_samples ::
  "(nat \<Rightarrow> 16 word) \<Rightarrow> nat \<Rightarrow> (nat \<Rightarrow> 16 word) \<Rightarrow> nat \<Rightarrow> (nat \<Rightarrow> 16 word)" where
  "memcpy_samples dst at src n =
     (\<lambda>i. if at \<le> i \<and> i < at + n then src (i - at) else dst i)"

definition libretro_audcb :: "(nat \<Rightarrow> 16 word) \<Rightarrow> 64 word \<Rightarrow> audio_ctx \<Rightarrow> audio_ctx" where
  "libretro_audcb data nframes c =
     c\<lparr> audbuf := memcpy_samples (audbuf c) (unat (audbuf_used c)) data
                    (unat (nframes * 2 * 2) div 2),
        audbuf_used := (audbuf_used c + nframes * 2) mod ucast (audbuf_nsamples c + 1) \<rparr>"

definition libretro_audscb :: "16 word \<Rightarrow> 16 word \<Rightarrow> audio_ctx \<Rightarrow> audio_ctx" where
  "libretro_audscb left right c =
     c\<lparr> audbuf := (audbuf c)(unat (audbuf_used c) := left,
                                unat (audbuf_used c + 1) := right),
        audbuf_used := (audbuf_used c + 1 + 1) mod ucast (audbuf_nsamples c + 1) \<rparr>"

text \<open>
  The state after setup for a core whose rate gives two frames of audio for each frame
  of video: \<open>audbuf_nsamples = 2 * 2 + 4 = 8\<close>, every sample set to \<open>0xaded\<close>.
\<close>

definition fresh_audbuf :: "nat \<Rightarrow> 16 word" where
  "fresh_audbuf i = 0xaded"

definition audio_setup :: audio_ctx where
  "audio_setup = \<lparr> audbuf = fresh_audbuf, audbuf_nsamples = 8, audbuf_used = 0 \<rparr>"

text \<open>A batch from the core: sample \<open>i\<close> holds the number \<open>i\<close>.\<close>

definition ramp :: "nat \<Rightarrow> 16 word" where
  "ramp i = of_nat i"

section \<open>Video publish callback (\<open>libretro_vidcb\<close>)\<close>

text \<open>
  The callback is modelled by the stores it makes, in program order; the state after the
  call is the state with these stores applied one after the other.
\<close>













section \<open>Cell raster decoder (\<open>raster_tobuf\<close>)\<close>

subsection \<open>Wire format\<close>

text \<open>
  \<open>buf\<close> is the memory that starts at the pointer the caller passes, addressed in
  bytes; \<open>buf_sz\<close> is the size the caller states. The decoder keeps its own account of
  the bytes left, so the two are separate arguments here as they are in C.
\<close>

type_synonym bytes = "nat \<Rightarrow> 8 word"

definition mem_of :: "8 word list \<Rightarrow> bytes" where
  "mem_of xs i = (if i < length xs then xs ! i else 0)"

definition get_u16 :: "bytes \<Rightarrow> nat \<Rightarrow> 16 word" where
  "get_u16 b i = ucast (b i) OR push_bit 8 (ucast (b (i + 1)))"

definition get_u32 :: "bytes \<Rightarrow> nat \<Rightarrow> 32 word" where
  "get_u32 b i = ucast (b i) OR push_bit 8 (ucast (b (i + 1)))
     OR push_bit 16 (ucast (b (i + 2))) OR push_bit 24 (ucast (b (i + 3)))"

text \<open>
  Modelled from the spec: \<open>raster.h\<close>, which declares \<open>struct tui_raster_header\<close>,
  \<open>struct tui_raster_line\<close>, \<open>raster_hdr_sz\<close>, \<open>raster_line_sz\<close>,
  \<open>raster_cell_sz\<close> and \<open>RPACK_DFRAME\<close>, is missing. The wire layout is
  \<open>{ flags:u8 (bit0=dirty-frame), lines:u16, cells:u16, data_sz:u32, cursor_state:u8,
  bgc[4]:u8 }\<close> for the header and \<open>{ start_line:u16, offset:u16, ncells:u16 }\<close> for
  a line, fields in this order with no padding and the low byte first; a cell is 12
  bytes. \<open>sizeof\<close> of the two structs is the size of their wire form.
\<close>

record tui_raster_header =
  hdr_flags :: "8 word"
  hdr_lines :: "16 word"
  hdr_cells :: "16 word"
  hdr_data_sz :: "32 word"
  hdr_cursor_state :: "8 word"
  hdr_bgc0 :: "8 word"
  hdr_bgc1 :: "8 word"
  hdr_bgc2 :: "8 word"
  hdr_bgc3 :: "8 word"

record tui_raster_line =
  start_line :: "16 word"
  offset :: "16 word"
  ncells :: "16 word"

definition raster_hdr_sz :: "64 word" where
  "raster_hdr_sz = 14"

definition raster_line_sz :: "64 word" where
  "raster_line_sz = 6"

definition raster_cell_sz :: "64 word" where
  "raster_cell_sz = 12"

definition RPACK_DFRAME :: "8 word" where
  "RPACK_DFRAME = 1"

definition read_header :: "bytes \<Rightarrow> nat \<Rightarrow> tui_raster_header" where
  "read_header b i = \<lparr> hdr_flags = b i, hdr_lines = get_u16 b (i + 1),
     hdr_cells = get_u16 b (i + 3), hdr_data_sz = get_u32 b (i + 5),
     hdr_cursor_state = b (i + 9), hdr_bgc0 = b (i + 10), hdr_bgc1 = b (i + 11),
     hdr_bgc2 = b (i + 12), hdr_bgc3 = b (i + 13) \<rparr>"

definition read_line :: "bytes \<Rightarrow> nat \<Rightarrow> tui_raster_line" where
  "read_line b i = \<lparr> start_line = get_u16 b i, offset = get_u16 b (i + 2),
     ncells = get_u16 b (i + 4) \<rparr>"

text \<open>
  A pixel is kept as the four channels \<open>SHMIF_RGBA\<close> packs: the macro is declared
  outside the sources and nothing here depends on the packing.
\<close>

datatype shmif_pixel = SHMIF_RGBA "8 word" "8 word" "8 word" "8 word"

record cell =
  fc :: shmif_pixel
  bc :: shmif_pixel
  ucs4 :: "32 word"
  attr :: "8 word"

definition unpack_cell :: "bytes \<Rightarrow> nat \<Rightarrow> 8 word \<Rightarrow> cell" where
  "unpack_cell b i alpha = \<lparr> fc = SHMIF_RGBA (b i) (b (i + 1)) (b (i + 2)) 0xff,
     bc = SHMIF_RGBA (b (i + 3)) (b (i + 4)) (b (i + 5)) alpha,
     ucs4 = get_u32 b (i + 8), attr = b (i + 6) \<rparr>"

text \<open>
  The attribute bit numbers \<open>CATTR_*\<close>, \<open>CURSOR_ACTIVE\<close> and the \<open>TTF_STYLE_*\<close>
  masks are declared outside the sources and are a parameter of the decoder.
\<close>

record raster_consts =
  CATTR_CURSOR :: nat
  CATTR_BOLD :: nat
  CATTR_ITALIC :: nat
  CATTR_UNDERLINE :: nat
  CATTR_STRIKETHROUGH :: nat
  CATTR_SKIP :: nat
  CURSOR_ACTIVE :: int
  TTF_STYLE_NORMAL :: int
  TTF_STYLE_BOLD :: int
  TTF_STYLE_ITALIC :: int

text \<open>\<open>attr & (1 << n)\<close> on the eight-bit attribute.\<close>

definition has_attr :: "cell \<Rightarrow> nat \<Rightarrow> bool" where
  "has_attr c n = bit (attr c) n"

subsection \<open>Context and drawing\<close>

text \<open>
  \<open>font0_vector\<close> is \<open>ctx->fonts[0]->vector\<close> and \<open>font1_vector_truetype\<close> is
  \<open>ctx->fonts[1]->vector && ctx->fonts[1]->truetype\<close>.
\<close>

record tui_raster_context =
  font0_vector :: bool
  font1_vector_truetype :: bool
  last_style :: int
  cursor_state :: int
  cc :: shmif_pixel
  cell_w :: "64 word"
  cell_h :: "64 word"

text \<open>
  The decoder never stores into the pixel buffer itself: every pixel it changes is
  written by \<open>draw_box_px\<close>, \<open>tui_pixelfont_draw\<close> or \<open>TTF_RenderUNICODEglyph\<close>,
  which are outside the sources. The model records each of these calls, in order, with
  the arguments that vary: the position, the size, the code point and the colours. The
  pixel buffer, the pitch and the clipping bounds \<open>max_w\<close>, \<open>max_h\<close> are handed
  through unchanged in every call. No recorded call means no pixel written.
\<close>

datatype draw_op =
  Draw_box_px "64 word" "64 word" "64 word" "64 word" shmif_pixel
| Tui_pixelfont_draw "32 word" "32 word" "32 word" shmif_pixel shmif_pixel
| TTF_SetFontStyle nat int
| TTF_RenderUNICODEglyph "32 word" "32 word" nat "32 word" shmif_pixel shmif_pixel int

text \<open>
  \<open>(int)(ctx->cell_h * 0.05) | 1\<close>: a twentieth of the cell height, rounded down, with
  the low bit set. The product in double precision is modelled by integer division.
\<close>

definition n_lines :: "tui_raster_context \<Rightarrow> 64 word" where
  "n_lines ctx = (cell_h ctx div 20) OR 1"

text \<open>\<open>x\<close> and \<open>y\<close> are \<open>int\<close> here and widen, with their sign, to \<open>size_t\<close>.\<close>

definition linehint ::
  "tui_raster_context \<Rightarrow> cell \<Rightarrow> 32 word \<Rightarrow> 32 word \<Rightarrow> bool \<Rightarrow> bool \<Rightarrow> draw_op list" where
  "linehint ctx c x y strikethrough underline =
     (if underline
      then [Draw_box_px (scast x) (scast y + cell_h ctx - n_lines ctx) (cell_w ctx)
              (n_lines ctx) (fc c)]
      else [])
     @ (if strikethrough
        then [Draw_box_px (scast x)
                (scast y + drop_bit 1 (cell_h ctx) - drop_bit 1 (n_lines ctx)) (cell_w ctx)
                (n_lines ctx) (fc c)]
        else [])"

definition line_marks ::
  "raster_consts \<Rightarrow> tui_raster_context \<Rightarrow> cell \<Rightarrow> 32 word \<Rightarrow> 32 word \<Rightarrow> draw_op list" where
  "line_marks K ctx c x y =
     (if ucs4 c \<noteq> 0 \<and> (has_attr c (CATTR_STRIKETHROUGH K) \<or> has_attr c (CATTR_UNDERLINE K))
      then linehint ctx c x y (has_attr c (CATTR_STRIKETHROUGH K))
             (has_attr c (CATTR_UNDERLINE K))
      else [])"

text \<open>
  \<open>drawglyph\<close> returns the advance, which is \<open>ctx->cell_w\<close> on every path, the context
  (the vector path updates \<open>last_style\<close>) and the calls it made.
\<close>

definition drawglyph ::
  "raster_consts \<Rightarrow> tui_raster_context \<Rightarrow> cell \<Rightarrow> 32 word \<Rightarrow> 32 word
     \<Rightarrow> 64 word \<times> tui_raster_context \<times> draw_op list" where
  "drawglyph K ctx c x y =
     (if \<not> font0_vector ctx then
        (let c1 = (if has_attr c (CATTR_CURSOR K) \<and> cursor_state ctx = CURSOR_ACTIVE K
                   then c\<lparr>bc := cc ctx\<rparr> else c)
         in (cell_w ctx, ctx,
             Tui_pixelfont_draw (ucs4 c1) x y (fc c1) (bc c1) # line_marks K ctx c1 x y))
      else
        (let nfonts = (if font1_vector_truetype ctx then 2 else 1 :: nat);
             bg = (if has_attr c (CATTR_CURSOR K) \<and> cursor_state ctx = CURSOR_ACTIVE K
                   then cc ctx else bc c);
             clear = Draw_box_px (scast x) (scast y) (cell_w ctx) (cell_h ctx) bg
         in if ucs4 c = 0 then (cell_w ctx, ctx, [clear])
            else
              (let prem = TTF_STYLE_NORMAL K
                     OR (TTF_STYLE_ITALIC K * (if has_attr c (CATTR_ITALIC K) then 1 else 0))
                     OR (TTF_STYLE_BOLD K * (if has_attr c (CATTR_BOLD K) then 1 else 0));
                   restyle = (if prem \<noteq> last_style ctx
                              then TTF_SetFontStyle 0 prem
                                   # (if nfonts = 2 then [TTF_SetFontStyle 1 prem] else [])
                              else []);
                   ctx1 = (if prem \<noteq> last_style ctx then ctx\<lparr>last_style := prem\<rparr> else ctx)
               in (cell_w ctx1, ctx1,
                   clear # restyle
                   @ [TTF_RenderUNICODEglyph x y nfonts (ucs4 c) (fc c) bg (last_style ctx1)]
                   @ line_marks K ctx1 c x y))))"

subsection \<open>The decoder\<close>

text \<open>
  What the caller gets back through pointers: the context, the four corners of the
  dirty rectangle and the drawing calls made.
\<close>

record raster_out =
  out_ctx :: tui_raster_context
  out_x1 :: "16 word"
  out_y1 :: "16 word"
  out_x2 :: "16 word"
  out_y2 :: "16 word"
  out_drawn :: "draw_op list"

text \<open>
  The variables of the running decoder. \<open>pos\<close> is how far \<open>buf\<close> has been moved on
  from the caller's pointer; \<open>cur_y\<close> is an \<open>ssize_t\<close> kept in two's complement, so
  \<open>-1\<close> is the word of all ones.
\<close>

record dec =
  ctx :: tui_raster_context
  x1 :: "16 word"
  y1 :: "16 word"
  x2 :: "16 word"
  y2 :: "16 word"
  drawn :: "draw_op list"
  pos :: nat
  buf_sz :: "64 word"
  cur_y :: "64 word"
  last_line :: "64 word"
  draw_x :: "64 word"
  draw_y :: "64 word"

text \<open>One pass of the cell loop, entered with \<open>line.ncells\<close> and \<open>buf_sz\<close> tested.\<close>

definition raster_cell ::
  "raster_consts \<Rightarrow> 64 word \<Rightarrow> 64 word \<Rightarrow> 8 word \<Rightarrow> bytes \<Rightarrow> dec \<Rightarrow> dec" where
  "raster_cell K max_w max_h alpha buf d =
     (let c = unpack_cell buf (pos d) alpha;
          d1 = d\<lparr> pos := pos d + unat raster_cell_sz, buf_sz := buf_sz d - raster_cell_sz \<rparr>
      in if has_attr c (CATTR_SKIP K) then d1\<lparr> draw_x := draw_x d1 + cell_w (ctx d1) \<rparr>
         else if draw_x d1 + cell_w (ctx d1) < max_w \<and> draw_y d1 + cell_h (ctx d1) < max_h then
           (case drawglyph K (ctx d1) c (ucast (draw_x d1)) (ucast (draw_y d1)) of
              (adv, ctx1, calls) \<Rightarrow>
                (let d2 = d1\<lparr> ctx := ctx1, drawn := drawn d1 @ calls,
                              draw_x := draw_x d1 + adv \<rparr>;
                     next_x = (ucast (draw_x d2 + cell_w (ctx d2)) :: 16 word)
                 in if x2 d2 < next_x \<and> ucast next_x \<le> max_w then d2\<lparr> x2 := next_x \<rparr>
                    else d2))
         else d1)"

text \<open>
  \<open>for (...; line.ncells && buf_sz >= raster_cell_sz; ...)\<close>, with \<open>line.ncells--\<close>
  first in the body: the count left is the recursion argument.
\<close>

fun raster_cells ::
  "raster_consts \<Rightarrow> 64 word \<Rightarrow> 64 word \<Rightarrow> 8 word \<Rightarrow> bytes \<Rightarrow> nat \<Rightarrow> dec \<Rightarrow> dec" where
  "raster_cells K max_w max_h alpha buf 0 d = d"
| "raster_cells K max_w max_h alpha buf (Suc n) d =
     (if raster_cell_sz \<le> buf_sz d
      then raster_cells K max_w max_h alpha buf n (raster_cell K max_w max_h alpha buf d)
      else d)"

text \<open>
  The body of the line loop after its size test. \<open>buf\<close> is moved past the line record;
  \<open>buf_sz\<close> is not reduced for it.
\<close>

definition raster_line ::
  "raster_consts \<Rightarrow> bool \<Rightarrow> 64 word \<Rightarrow> 64 word \<Rightarrow> tui_raster_header \<Rightarrow> bytes \<Rightarrow> dec \<Rightarrow> dec" where
  "raster_line K update max_w max_h hdr buf d =
     (let line = read_line buf (pos d);
          bgc = SHMIF_RGBA (hdr_bgc0 hdr) (hdr_bgc1 hdr) (hdr_bgc2 hdr) (hdr_bgc3 hdr);
          d1 = d\<lparr> pos := pos d + unat raster_line_sz \<rparr>;
          d2 = (if last_line d1 < ucast (start_line line)
                then d1\<lparr> last_line := ucast (start_line line) \<rparr> else d1);
          d3 = (if update \<and> cur_y d2 = - 1
                then d2\<lparr> y1 := ucast (ucast (start_line line) * cell_h (ctx d2)) \<rparr> else d2);
          d4 = (if cur_y d3 \<noteq> ucast (start_line line)
                then (if \<not> update \<and> cur_y d3 \<noteq> - 1
                      then d3\<lparr> drawn := drawn d3 @
                             [Draw_box_px 0 (cur_y d3 * cell_h (ctx d3)) (cell_w (ctx d3))
                                (cell_h (ctx d3) * (ucast (start_line line) - cur_y d3)) bgc] \<rparr>
                      else d3) \<lparr> cur_y := ucast (start_line line) \<rparr>
                else d3);
          d5 = d4\<lparr> draw_y := cur_y d4 * cell_h (ctx d4) \<rparr>;
          d6 = (if draw_y d5 < ucast (y1 d5) then d5\<lparr> y1 := ucast (draw_y d5) \<rparr> else d5);
          d7 = d6\<lparr> draw_x := ucast (offset line) * cell_w (ctx d6) \<rparr>;
          d8 = (if draw_x d7 < ucast (x1 d7) then d7\<lparr> x1 := ucast (draw_x d7) \<rparr> else d7);
          d9 = raster_cells K max_w max_h (hdr_bgc3 hdr) buf (unat (ncells line)) d8
      in d9\<lparr> cur_y := cur_y d9 + 1 \<rparr>)"

text \<open>
  \<open>for (size_t i = 0; i < hdr.lines && buf_sz; i++)\<close>; the argument counts the lines
  still to come. \<open>False\<close> is the \<open>return -1\<close> inside the loop.
\<close>

fun raster_lines ::
  "raster_consts \<Rightarrow> bool \<Rightarrow> 64 word \<Rightarrow> 64 word \<Rightarrow> tui_raster_header \<Rightarrow> bytes \<Rightarrow> nat \<Rightarrow> dec
     \<Rightarrow> bool \<times> dec" where
  "raster_lines K update max_w max_h hdr buf 0 d = (True, d)"
| "raster_lines K update max_w max_h hdr buf (Suc n) d =
     (if buf_sz d = 0 then (True, d)
      else if buf_sz d < raster_line_sz then (False, d)
      else raster_lines K update max_w max_h hdr buf n
             (raster_line K update max_w max_h hdr buf d))"

definition hdr_ver_sz :: "tui_raster_header \<Rightarrow> 64 word" where
  "hdr_ver_sz hdr = ucast (hdr_lines hdr) * raster_line_sz
     + ucast (hdr_cells hdr) * raster_cell_sz + raster_hdr_sz"

definition dec_out :: "dec \<Rightarrow> raster_out" where
  "dec_out d = \<lparr> out_ctx = ctx d, out_x1 = x1 d, out_y1 = y1 d, out_x2 = x2 d,
     out_y2 = y2 d, out_drawn = drawn d \<rparr>"

text \<open>
  The state when the line loop is entered: the header is consumed, the rectangle is
  set for the mode, \<open>ctx->cursor_state\<close> is taken from the header.
\<close>

definition dec_start ::
  "raster_out \<Rightarrow> bool \<Rightarrow> 64 word \<Rightarrow> 64 word \<Rightarrow> tui_raster_header \<Rightarrow> 64 word \<Rightarrow> dec" where
  "dec_start out update max_w max_h hdr bufsz =
     \<lparr> ctx = (out_ctx out)\<lparr> cursor_state := uint (hdr_cursor_state hdr) \<rparr>,
       x1 = (if update then ucast max_w else 0),
       y1 = (if update then ucast max_h else 0),
       x2 = (if update then 0 else ucast max_w),
       y2 = (if update then 0 else ucast max_h),
       drawn = out_drawn out,
       pos = unat raster_hdr_sz,
       buf_sz = bufsz - raster_hdr_sz,
       cur_y = - 1, last_line = 0, draw_x = 0, draw_y = 0 \<rparr>"

definition raster_tobuf ::
  "raster_consts \<Rightarrow> raster_out \<Rightarrow> 64 word \<Rightarrow> 64 word \<Rightarrow> bytes \<Rightarrow> 64 word
     \<Rightarrow> int \<times> raster_out" where
  "raster_tobuf K out max_w max_h buf bufsz =
     (if bufsz = 0 \<or> bufsz < raster_hdr_sz then (- 1, out)
      else
        (let hdr = read_header buf 0 in
         if bufsz < ucast (hdr_data_sz hdr) \<or> ucast (hdr_data_sz hdr) \<noteq> hdr_ver_sz hdr
         then (- 1, out)
         else
           (let update = (hdr_flags hdr AND RPACK_DFRAME \<noteq> 0) in
            case raster_lines K update max_w max_h hdr buf (unat (hdr_lines hdr))
                   (dec_start out update max_w max_h hdr bufsz) of
              (False, d) \<Rightarrow> (- 1, dec_out d)
            | (True, d) \<Rightarrow>
                (1, dec_out (if update
                             then d\<lparr> y2 := ucast ((last_line d + 1) * cell_h (ctx d)) \<rparr>
                             else d)))))"

subsection \<open>Well-formed buffers\<close>

text \<open>
  The number of cells the line records of a buffer declare: \<open>n\<close> line records, the
  first at byte \<open>p\<close>, each followed by the cells it declares.
\<close>

fun declared_cells :: "bytes \<Rightarrow> nat \<Rightarrow> nat \<Rightarrow> nat" where
  "declared_cells buf p 0 = 0"
| "declared_cells buf p (Suc n) =
     unat (ncells (read_line buf p))
     + declared_cells buf (p + 6 + 12 * unat (ncells (read_line buf p))) n"

subsection \<open>Concrete inputs\<close>

text \<open>
  One numbering of the constants, a context with a bitmap font and cells of 8 by 16
  pixels, and the caller's variables before the call. The buffers below are written out
  byte by byte: 14 bytes of header, then lines of 6 bytes, each followed by its cells
  of 12 bytes.
\<close>

definition example_consts :: raster_consts where
  "example_consts = \<lparr> CATTR_CURSOR = 0, CATTR_BOLD = 1, CATTR_ITALIC = 2,
     CATTR_UNDERLINE = 3, CATTR_STRIKETHROUGH = 4, CATTR_SKIP = 5, CURSOR_ACTIVE = 1,
     TTF_STYLE_NORMAL = 0, TTF_STYLE_BOLD = 1, TTF_STYLE_ITALIC = 2 \<rparr>"

definition bitmap_ctx :: tui_raster_context where
  "bitmap_ctx = \<lparr> font0_vector = False, font1_vector_truetype = False, last_style = - 1,
     cursor_state = 0, cc = SHMIF_RGBA 0 0xaa 0 0xff, cell_w = 8, cell_h = 16 \<rparr>"

definition caller_out :: raster_out where
  "caller_out = \<lparr> out_ctx = bitmap_ctx, out_x1 = 0, out_y1 = 0, out_x2 = 0, out_y2 = 0,
     out_drawn = [] \<rparr>"

text \<open>Dirty frame, one line at row 5 starting at column 3, one cell \<open>A\<close>.\<close>

definition one_cell_buf :: "8 word list" where
  "one_cell_buf = [1, 1, 0, 1, 0, 32, 0, 0, 0, 0, 0, 0, 0, 255,
                   5, 0, 3, 0, 1, 0,
                   255, 255, 255, 0, 0, 0, 0, 0, 65, 0, 0, 0]"

text \<open>The same with \<open>data_sz = 33\<close> and one more byte at the end.\<close>

definition bad_size_buf :: "8 word list" where
  "bad_size_buf = [1, 1, 0, 1, 0, 33, 0, 0, 0, 0, 0, 0, 0, 255,
                   5, 0, 3, 0, 1, 0,
                   255, 255, 255, 0, 0, 0, 0, 0, 65, 0, 0, 0, 0]"

text \<open>The same cell with attribute byte 32, bit 5.\<close>

definition skip_cell_buf :: "8 word list" where
  "skip_cell_buf = [1, 1, 0, 1, 0, 32, 0, 0, 0, 0, 0, 0, 0, 255,
                    5, 0, 3, 0, 1, 0,
                    255, 255, 255, 0, 0, 0, 32, 0, 65, 0, 0, 0]"

text \<open>Full frame, a line at row 0 and a line at row 2, one cell each.\<close>

definition gap_buf :: "8 word list" where
  "gap_buf = [0, 2, 0, 2, 0, 50, 0, 0, 0, 0, 0, 0, 0, 255,
              0, 0, 0, 0, 1, 0,
              255, 255, 255, 0, 0, 0, 0, 0, 65, 0, 0, 0,
              2, 0, 0, 0, 1, 0,
              255, 255, 255, 0, 0, 0, 0, 0, 66, 0, 0, 0]"

text \<open>
  A header that declares two lines and no cell, \<open>data_sz = 2 * 6 + 0 * 12 + 14 = 26\<close>,
  whose first line declares one cell.
\<close>

definition short_buf :: "8 word list" where
  "short_buf = [1, 2, 0, 0, 0, 26, 0, 0, 0, 0, 0, 0, 0, 255,
                0, 0, 0, 0, 1, 0,
                255, 255, 255, 0, 0, 0, 0, 0, 65, 0, 0, 0]"

text \<open>
  The decoder in front of the cell of row 5: at column 3, and at 636 pixels from the
  left in a buffer 640 wide.
\<close>

definition mid_dec :: dec where
  "mid_dec = \<lparr> ctx = bitmap_ctx, x1 = 24, y1 = 80, x2 = 0, y2 = 0, drawn = [],
     pos = 20, buf_sz = 12, cur_y = 5, last_line = 5, draw_x = 24, draw_y = 80 \<rparr>"

definition edge_dec :: dec where
  "edge_dec = \<lparr> ctx = bitmap_ctx, x1 = 24, y1 = 80, x2 = 0, y2 = 0, drawn = [],
     pos = 20, buf_sz = 12, cur_y = 5, last_line = 5, draw_x = 636, draw_y = 80 \<rparr>"

text \<open>
  Dirty frame: the line of \<open>one_cell_buf\<close>, then a line at row 40 starting at column 1
  with one cell \<open>B\<close>.
\<close>

definition two_line_buf :: "8 word list" where
  "two_line_buf = [1, 2, 0, 2, 0, 50, 0, 0, 0, 0, 0, 0, 0, 255,
                   5, 0, 3, 0, 1, 0,
                   255, 255, 255, 0, 0, 0, 0, 0, 65, 0, 0, 0,
                   40, 0, 1, 0, 1, 0,
                   255, 255, 255, 0, 0, 0, 0, 0, 66, 0, 0, 0]"

section \<open>Properties\<close>

subsection \<open>Widening of machine integers\<close>

lemma unat_u16: "unat (w :: 16 word) < 65536"
  using unsigned_less [of w, where 'a = nat] by simp

lemma unat_ucast_16_64: "unat (ucast (w :: 16 word) :: 64 word) = unat w"
proof -
  have "unat w < 2 ^ 64" using unat_u16 [of w] by simp
  then show ?thesis by (simp add: unsigned_ucast_eq take_bit_nat_eq_self)
qed

lemma unat_ucast_32_64: "unat (ucast (w :: 32 word) :: 64 word) = unat w"
proof -
  have "unat w < 2 ^ 32" using unsigned_less [of w, where 'a = nat] by simp
  then have "unat w < 2 ^ 64" by simp
  then show ?thesis by (simp add: unsigned_ucast_eq take_bit_nat_eq_self)
qed

subsection \<open>Label translation\<close>

lemmas label_defs = ioev_ctxtbl_def button_of_def subtype_chain_def sscanf_d_def scan_d_def
  store_int_def
  isspace_def isdigit_def digit_val_def starts_with_digit_def strchr_underscore_def
  MAX_PORTS_def MAX_BUTTONS_def remaptbl_def

lemma io_value_label [simp]: "io_value (ev\<lparr>label := l\<rparr>) = io_value ev"
  by (simp add: io_value_def)

text \<open>
  Whatever \<open>ioev_ctxtbl\<close> does, it either leaves the memory alone or stores the event's
  value in the one cell \<open>joypad[ind - 1][button]\<close> with \<open>ind\<close> in 1..3 and
  \<open>button\<close> not negative.
\<close>

lemma ioev_ctxtbl_cases:
  "ioev_ctxtbl R ioev m = m \<or>
   (\<exists>ind subtype. 0 < ind \<and> ind < 4 \<and> strchr_underscore (label ioev) = Some subtype \<and>
      0 \<le> button_of R subtype \<and>
      ioev_ctxtbl R ioev m = m(joypad_addr (ind - 1) (button_of R subtype) := io_value ioev))"
  by (auto simp: ioev_ctxtbl_def MAX_PORTS_def Let_def split: option.splits)

text \<open>\<open>BUTTON1\<close> to \<open>BUTTON6\<close> give the entries of \<open>remaptbl\<close> in order.\<close>

lemma button_labels_in_order:
  "map (button_of R)
     [''BUTTON1'', ''BUTTON2'', ''BUTTON3'', ''BUTTON4'', ''BUTTON5'', ''BUTTON6'']
   = remaptbl R"
  by (simp add: label_defs)

text \<open>
  Claim C8. The label \<open>PLAYER1_BUTTON1\<close> stores the event's value in the cell of port 0
  that the first entry of \<open>remaptbl\<close>, \<open>RETRO_DEVICE_ID_JOYPAD_A\<close>, names;
  \<open>PLAYER2_UP\<close> stores it in the \<open>UP\<close> cell of port 1; the unrecognized label
  \<open>PLAYER1_FROB\<close> leaves the whole matrix as it was. The two device ids are not
  negative, as in libretro.
\<close>

theorem label_translation_scenario:
  assumes "0 \<le> JOYPAD_A R" and "0 \<le> JOYPAD_UP R"
  shows "remaptbl R ! 0 = JOYPAD_A R \<and>
    ioev_ctxtbl R (ev\<lparr>label := ''PLAYER1_BUTTON1''\<rparr>) m
      = m(joypad_addr 0 (remaptbl R ! 0) := io_value ev) \<and>
    ioev_ctxtbl R (ev\<lparr>label := ''PLAYER2_UP''\<rparr>) m
      = m(joypad_addr 1 (JOYPAD_UP R) := io_value ev) \<and>
    ioev_ctxtbl R (ev\<lparr>label := ''PLAYER1_FROB''\<rparr>) m = m"
  using assms by (simp add: label_defs)

theorem label_translation_scenario_witness:
  "0 \<le> JOYPAD_A libretro_ids \<and> 0 \<le> JOYPAD_UP libretro_ids \<and>
   remaptbl libretro_ids ! 0 = 8 \<and>
   joypad_at (ioev_ctxtbl libretro_ids (press ''PLAYER1_BUTTON1'') no_input) 0 8 \<and>
   joypad_at (ioev_ctxtbl libretro_ids (press ''PLAYER2_UP'') no_input) 1 4 \<and>
   ioev_ctxtbl libretro_ids (press ''PLAYER1_FROB'') no_input = no_input"
  using label_translation_scenario [of libretro_ids "press ''''" no_input]
  by (simp add: libretro_ids_def press_def joypad_at_def io_value_def)

text \<open>
  What the guard on the port does: an event whose label does not scan as \<open>PLAYERn\<close>,
  or scans with \<open>n \<le> 0\<close> or \<open>n \<ge> 4\<close> (\<open>n\<close> being the \<open>int\<close> that \<open>sscanf\<close>
  stored), leaves the memory of the matrix unchanged. For any event, the cells of the
  fourth port (index 3) keep their value as long as the column the label selects is
  below \<open>MAX_BUTTONS\<close> (or the label has no underscore).
\<close>

lemma player_index_guard:
  "(sscanf_d (label ioev) ''PLAYER'' = None \<longrightarrow> ioev_ctxtbl R ioev m = m) \<and>
   (\<forall>n. sscanf_d (label ioev) ''PLAYER'' = Some n \<and> (n \<le> 0 \<or> n \<ge> 4)
        \<longrightarrow> ioev_ctxtbl R ioev m = m) \<and>
   (\<forall>b. (case strchr_underscore (label ioev) of
               None \<Rightarrow> True
             | Some subtype \<Rightarrow> button_of R subtype < MAX_BUTTONS) \<and> 0 \<le> b
        \<longrightarrow> joypad_at (ioev_ctxtbl R ioev m) 3 b = joypad_at m 3 b)"
proof (intro conjI allI impI)
  assume "sscanf_d (label ioev) ''PLAYER'' = None"
  then show "ioev_ctxtbl R ioev m = m" by (simp add: ioev_ctxtbl_def)
next
  fix n
  assume "sscanf_d (label ioev) ''PLAYER'' = Some n \<and> (n \<le> 0 \<or> n \<ge> 4)"
  then show "ioev_ctxtbl R ioev m = m" by (auto simp: ioev_ctxtbl_def MAX_PORTS_def)
next
  fix b :: int
  assume h: "(case strchr_underscore (label ioev) of
               None \<Rightarrow> True
             | Some subtype \<Rightarrow> button_of R subtype < MAX_BUTTONS) \<and> 0 \<le> b"
  from ioev_ctxtbl_cases [of R ioev m]
  show "joypad_at (ioev_ctxtbl R ioev m) 3 b = joypad_at m 3 b"
  proof
    assume "ioev_ctxtbl R ioev m = m"
    then show ?thesis by simp
  next
    assume "\<exists>ind subtype. 0 < ind \<and> ind < 4 \<and>
      strchr_underscore (label ioev) = Some subtype \<and> 0 \<le> button_of R subtype \<and>
      ioev_ctxtbl R ioev m = m(joypad_addr (ind - 1) (button_of R subtype) := io_value ioev)"
    then obtain ind subtype where i: "0 < ind" "ind < 4" "0 \<le> button_of R subtype"
      and s: "strchr_underscore (label ioev) = Some subtype"
      and e: "ioev_ctxtbl R ioev m
               = m(joypad_addr (ind - 1) (button_of R subtype) := io_value ioev)"
      by auto
    have "button_of R subtype < 12 \<and> 0 \<le> b"
      using h s by (simp add: MAX_BUTTONS_def)
    then have "joypad_addr (ind - 1) (button_of R subtype) \<noteq> joypad_addr 3 b"
      using i unfolding joypad_addr_def MAX_BUTTONS_def by auto
    then show ?thesis by (simp add: e joypad_at_def)
  qed
qed

text \<open>
  The number after \<open>PLAYER\<close> is the \<open>int\<close> that was stored, not the digits:
  \<open>PLAYER4294967297_UP\<close> is scanned as player 1 and sets the \<open>UP\<close> cell of port 0.
\<close>

lemma wide_player_number:
  "sscanf_d ''PLAYER4294967297_UP'' ''PLAYER'' = Some 1 \<and>
   joypad_at (ioev_ctxtbl libretro_ids (press ''PLAYER4294967297_UP'') no_input) 0 4"
  by (simp add: label_defs press_def io_value_def joypad_at_def joypad_addr_def
      libretro_ids_def)

text \<open>
  Claim C9 says that labels with \<open>n \<le> 0\<close> or \<open>n \<ge> 4\<close> change nothing and that the
  fourth port (index 3) can never be set through label translation. The code run on
  \<open>PLAYER3_BUTTON12\<close>, on a matrix with every cell false: the label passes the test on
  the port, \<open>sscanf\<close> leaves the scanned 12 in \<open>button\<close> after the range test has
  failed, and the store to \<open>joypad[2][12]\<close> lands in \<open>joypad[3][0]\<close>, a cell of the
  fourth port.
\<close>

theorem button12_sets_fourth_port:
  "button_of libretro_ids ''BUTTON12'' = 12 \<and>
   joypad_addr 2 12 = joypad_addr 3 0 \<and>
   joypad_at (ioev_ctxtbl libretro_ids (press ''PLAYER3_BUTTON12'') no_input) 3 0 \<and>
   \<not> joypad_at no_input 3 0"
  by (simp add: label_defs press_def io_value_def joypad_at_def joypad_addr_def no_input_def)

text \<open>
  Claim C10 says that a label \<open>PLAYERn_BUTTONm\<close> with \<open>m\<close> outside 1..6 changes
  nothing. The code run on \<open>PLAYER1_BUTTON7\<close>: \<open>sscanf\<close> stores 7 in \<open>button\<close>, the
  range test fails, no other branch assigns, and the final \<open>button >= 0\<close> test lets
  the store to \<open>joypad[0][7]\<close> through.
\<close>

theorem button7_sets_cell:
  "sscanf_d ''BUTTON7'' ''BUTTON'' = Some 7 \<and>
   button_of libretro_ids ''BUTTON7'' = 7 \<and>
   joypad_at (ioev_ctxtbl libretro_ids (press ''PLAYER1_BUTTON7'') no_input) 0 7 \<and>
   \<not> joypad_at no_input 0 7"
  by (simp add: label_defs press_def io_value_def joypad_at_def joypad_addr_def no_input_def)

subsection \<open>Audio accumulator\<close>

text \<open>
  What does hold for the cursor: after either callback it is at most
  \<open>audbuf_nsamples\<close>, the capacity itself.
\<close>

lemma mod_guard_bound:
  fixes x :: "64 word" and n :: "32 word"
  assumes "n + 1 \<noteq> 0"
  shows "x mod ucast (n + 1) \<le> ucast n"
proof -
  have n1: "unat (n + 1) = unat n + 1"
    using assms by (metis add.commute unatSuc Suc_eq_plus1)
  have "unat (x mod ucast (n + 1)) = unat x mod (unat n + 1)"
    by (simp add: unat_mod_distrib unat_ucast_32_64 n1)
  also have "\<dots> \<le> unat n"
    by (metis Suc_eq_plus1 less_Suc_eq_le mod_less_divisor zero_less_Suc)
  finally show ?thesis
    by (simp add: word_le_nat_alt unat_ucast_32_64)
qed

lemma audbuf_used_bound:
  assumes "audbuf_nsamples c + 1 \<noteq> 0"
  shows "audbuf_used (libretro_audscb l r c) \<le> ucast (audbuf_nsamples c) \<and>
         audbuf_used (libretro_audcb data nframes c) \<le> ucast (audbuf_nsamples c)"
  using mod_guard_bound [OF assms] by (simp add: libretro_audscb_def libretro_audcb_def)

text \<open>
  Claim C2 says that \<open>audbuf_used\<close> stays at most the capacity less one and that no
  store goes past the allocated buffer. The code run from the state after setup, with a
  buffer of 8 samples (index 0 to 7): four calls of \<open>libretro_audscb\<close> bring
  \<open>audbuf_used\<close> to 8, the capacity itself; the fifth call stores its two samples at
  index 8 and 9, behind the allocation, and leaves \<open>audbuf_used = 10 mod 9 = 1\<close>.
  One call of \<open>libretro_audcb\<close> with five frames does the same.
\<close>

theorem guard_overflow_writes_past_buffer:
  "audbuf_nsamples audio_setup = 8 \<and>
   audbuf_used (libretro_audscb 1 2 (libretro_audscb 1 2 (libretro_audscb 1 2
     (libretro_audscb 1 2 audio_setup)))) = 8 \<and>
   audbuf (libretro_audscb 3 4 (libretro_audscb 1 2 (libretro_audscb 1 2
     (libretro_audscb 1 2 (libretro_audscb 1 2 audio_setup))))) 8 = 3 \<and>
   audbuf (libretro_audscb 3 4 (libretro_audscb 1 2 (libretro_audscb 1 2
     (libretro_audscb 1 2 (libretro_audscb 1 2 audio_setup))))) 9 = 4 \<and>
   audbuf_used (libretro_audscb 3 4 (libretro_audscb 1 2 (libretro_audscb 1 2
     (libretro_audscb 1 2 (libretro_audscb 1 2 audio_setup))))) = 1 \<and>
   audbuf (libretro_audcb ramp 5 audio_setup) 8 = 8 \<and>
   audbuf (libretro_audcb ramp 5 audio_setup) 9 = 9 \<and>
   audbuf_used (libretro_audcb ramp 5 audio_setup) = 1"
  by (simp add: libretro_audscb_def libretro_audcb_def audio_setup_def memcpy_samples_def
      ramp_def)

subsection \<open>Video publish callback\<close>






subsection \<open>Cell raster decoder\<close>

text \<open>
  The sum the decoder compares \<open>data_sz\<close> with does not wrap: the two counts are
  16 bits wide.
\<close>

lemma hdr_ver_sz_unat:
  "unat (hdr_ver_sz hdr) = unat (hdr_lines hdr) * 6 + unat (hdr_cells hdr) * 12 + 14"
proof -
  have l: "unat (hdr_lines hdr) < 65536" by (rule unat_u16)
  have c: "unat (hdr_cells hdr) < 65536" by (rule unat_u16)
  have "unat (hdr_ver_sz hdr) =
      (unat (hdr_lines hdr) * 6 + unat (hdr_cells hdr) * 12 + 14) mod 2 ^ 64"
    unfolding hdr_ver_sz_def raster_line_sz_def raster_cell_sz_def raster_hdr_sz_def
    by (simp add: unat_word_ariths unat_ucast_16_64 mod_simps)
  also have "\<dots> = unat (hdr_lines hdr) * 6 + unat (hdr_cells hdr) * 12 + 14"
    using l c by simp
  finally show ?thesis .
qed

lemma data_sz_matches:
  "(ucast (hdr_data_sz hdr) = hdr_ver_sz hdr) =
   (unat (hdr_data_sz hdr) = unat (hdr_lines hdr) * 6 + unat (hdr_cells hdr) * 12 + 14)"
proof -
  have "(ucast (hdr_data_sz hdr) = hdr_ver_sz hdr) =
        (unat (ucast (hdr_data_sz hdr) :: 64 word) = unat (hdr_ver_sz hdr))"
    by (simp add: word_unat_eq_iff)
  then show ?thesis by (simp add: hdr_ver_sz_unat unat_ucast_32_64)
qed

text \<open>
  The decoder moves \<open>buf\<close> on by 12 and takes 12 off \<open>buf_sz\<close> for every cell it
  reads, whatever it does with the cell; for a line record it moves \<open>buf\<close> on by 6.
\<close>

lemma raster_cell_pos_sz:
  "pos (raster_cell K max_w max_h alpha buf d) = pos d + 12 \<and>
   buf_sz (raster_cell K max_w max_h alpha buf d) = buf_sz d - 12"
  by (simp add: raster_cell_def Let_def raster_cell_sz_def split: prod.splits)

lemma raster_cells_pos_sz:
  "12 * n \<le> unat (buf_sz d) \<Longrightarrow>
   pos (raster_cells K max_w max_h alpha buf n d) = pos d + 12 * n \<and>
   unat (buf_sz (raster_cells K max_w max_h alpha buf n d)) = unat (buf_sz d) - 12 * n"
proof (induction n arbitrary: d)
  case 0
  then show ?case by simp
next
  case (Suc n)
  have ge: "12 \<le> unat (buf_sz d)" using Suc.prems by simp
  then have le: "raster_cell_sz \<le> buf_sz d"
    by (simp add: raster_cell_sz_def word_le_nat_alt)
  have sub: "unat (buf_sz d - 12) = unat (buf_sz d) - 12"
    using le by (simp add: raster_cell_sz_def unat_sub)
  let ?d = "raster_cell K max_w max_h alpha buf d"
  have "12 * n \<le> unat (buf_sz ?d)"
    using Suc.prems sub by (simp add: raster_cell_pos_sz)
  from Suc.IH [OF this] show ?case
    using le sub by (simp add: raster_cell_pos_sz)
qed

lemma raster_line_pos_sz:
  assumes "12 * unat (ncells (read_line buf (pos d))) \<le> unat (buf_sz d)"
  shows "pos (raster_line K update max_w max_h hdr buf d)
           = pos d + 6 + 12 * unat (ncells (read_line buf (pos d))) \<and>
         unat (buf_sz (raster_line K update max_w max_h hdr buf d))
           = unat (buf_sz d) - 12 * unat (ncells (read_line buf (pos d)))"
  using assms
  by (simp add: raster_line_def Let_def raster_line_sz_def raster_cells_pos_sz)

text \<open>
  The line loop runs to its end when \<open>buf_sz\<close> covers 6 bytes for each line still to
  come and 12 for each cell those lines declare.
\<close>

lemma raster_lines_accept:
  "6 * n + 12 * declared_cells buf (pos d) n \<le> unat (buf_sz d) \<Longrightarrow>
   fst (raster_lines K update max_w max_h hdr buf n d)"
proof (induction n arbitrary: d)
  case 0
  then show ?case by simp
next
  case (Suc n)
  let ?k = "unat (ncells (read_line buf (pos d)))"
  have big: "6 * Suc n + 12 * (?k + declared_cells buf (pos d + 6 + 12 * ?k) n)
              \<le> unat (buf_sz d)"
    using Suc.prems by simp
  then have nz: "buf_sz d \<noteq> 0" by (auto simp: unat_eq_0 [symmetric] simp del: unat_eq_0)
  have nlt: "\<not> buf_sz d < raster_line_sz"
    using big by (simp add: raster_line_sz_def word_less_nat_alt)
  have k: "12 * ?k \<le> unat (buf_sz d)" using big by simp
  let ?d = "raster_line K update max_w max_h hdr buf d"
  have "6 * n + 12 * declared_cells buf (pos ?d) n \<le> unat (buf_sz ?d)"
    using big raster_line_pos_sz [OF k, of K update max_w max_h hdr] by simp
  from Suc.IH [OF this] show ?case using nz nlt by simp
qed

lemma raster_tobuf_accepts:
  assumes sz: "unat (hdr_data_sz (read_header buf 0))
                = unat (hdr_lines (read_header buf 0)) * 6
                  + unat (hdr_cells (read_header buf 0)) * 12 + 14"
    and le: "unat (hdr_data_sz (read_header buf 0)) \<le> unat bufsz"
    and wf: "declared_cells buf 14 (unat (hdr_lines (read_header buf 0)))
              \<le> unat (hdr_cells (read_header buf 0))"
  shows "fst (raster_tobuf K out max_w max_h buf bufsz) = 1"
proof -
  let ?h = "read_header buf 0"
  let ?u = "hdr_flags ?h AND RPACK_DFRAME \<noteq> 0"
  let ?d = "dec_start out ?u max_w max_h ?h bufsz"
  have b14: "14 \<le> unat bufsz" using sz le by simp
  then have nz: "bufsz \<noteq> 0" by auto
  have nlt: "\<not> bufsz < raster_hdr_sz"
    using b14 by (simp add: raster_hdr_sz_def word_less_nat_alt)
  have nbig: "\<not> bufsz < ucast (hdr_data_sz ?h)"
    using le by (simp add: word_less_nat_alt unat_ucast_32_64)
  have eq: "ucast (hdr_data_sz ?h) = hdr_ver_sz ?h"
    using sz by (simp add: data_sz_matches)
  have "(14 :: 64 word) \<le> bufsz" using b14 by (simp add: word_le_nat_alt)
  then have sub: "unat (bufsz - 14) = unat bufsz - 14" by (simp add: unat_sub)
  have start: "pos ?d = 14 \<and> unat (buf_sz ?d) = unat bufsz - 14"
    using sub by (simp add: dec_start_def raster_hdr_sz_def)
  have "6 * unat (hdr_lines ?h) + 12 * declared_cells buf (pos ?d) (unat (hdr_lines ?h))
          \<le> unat (buf_sz ?d)"
    using sz le wf start by simp
  then have "fst (raster_lines K ?u max_w max_h ?h buf (unat (hdr_lines ?h)) ?d)"
    by (rule raster_lines_accept)
  then obtain e where
    "raster_lines K ?u max_w max_h ?h buf (unat (hdr_lines ?h)) ?d = (True, e)"
    by (cases "raster_lines K ?u max_w max_h ?h buf (unat (hdr_lines ?h)) ?d") simp
  then show ?thesis
    using nz nlt nbig eq
    by (simp add: raster_tobuf_def Let_def)
qed

text \<open>
  Claim C1, as amended. A buffer whose \<open>data_sz\<close> is larger than the size the caller
  states, or differs from \<open>lines * 6 + cells * 12 + 14\<close>, is refused with \<open>-1\<close> and
  the context, the rectangle and the pixel buffer are as before the call. A buffer the
  decoder accepts (it returns 1) has \<open>data_sz\<close> equal to that sum and at most the
  stated size. And a buffer with \<open>data_sz\<close> equal to that sum and at most the stated
  size is accepted, provided its line records declare in all no more cells than the
  header counts.
\<close>

theorem header_size_check:
  "(unat bufsz < unat (hdr_data_sz (read_header buf 0)) \<or>
    unat (hdr_data_sz (read_header buf 0))
      \<noteq> unat (hdr_lines (read_header buf 0)) * 6
        + unat (hdr_cells (read_header buf 0)) * 12 + 14
    \<longrightarrow> raster_tobuf K out max_w max_h buf bufsz = (- 1, out)) \<and>
   (fst (raster_tobuf K out max_w max_h buf bufsz) = 1
    \<longrightarrow> unat (hdr_data_sz (read_header buf 0))
          = unat (hdr_lines (read_header buf 0)) * 6
            + unat (hdr_cells (read_header buf 0)) * 12 + 14 \<and>
        unat (hdr_data_sz (read_header buf 0)) \<le> unat bufsz) \<and>
   (unat (hdr_data_sz (read_header buf 0))
      = unat (hdr_lines (read_header buf 0)) * 6
        + unat (hdr_cells (read_header buf 0)) * 12 + 14 \<and>
    unat (hdr_data_sz (read_header buf 0)) \<le> unat bufsz \<and>
    declared_cells buf 14 (unat (hdr_lines (read_header buf 0)))
      \<le> unat (hdr_cells (read_header buf 0))
    \<longrightarrow> fst (raster_tobuf K out max_w max_h buf bufsz) = 1)"
proof -
  let ?h = "read_header buf 0"
  have lt: "(bufsz < ucast (hdr_data_sz ?h)) = (unat bufsz < unat (hdr_data_sz ?h))"
    by (simp add: word_less_nat_alt unat_ucast_32_64)
  have refuse_and_only_if:
    "(unat bufsz < unat (hdr_data_sz ?h) \<or>
      unat (hdr_data_sz ?h) \<noteq> unat (hdr_lines ?h) * 6 + unat (hdr_cells ?h) * 12 + 14
      \<longrightarrow> raster_tobuf K out max_w max_h buf bufsz = (- 1, out)) \<and>
     (fst (raster_tobuf K out max_w max_h buf bufsz) = 1
      \<longrightarrow> unat (hdr_data_sz ?h) = unat (hdr_lines ?h) * 6 + unat (hdr_cells ?h) * 12 + 14 \<and>
          unat (hdr_data_sz ?h) \<le> unat bufsz)"
    unfolding raster_tobuf_def Let_def
    using lt data_sz_matches [of ?h]
    by (auto split: prod.splits bool.splits)
  show ?thesis
    using refuse_and_only_if raster_tobuf_accepts [of buf bufsz K out max_w max_h]
    by blast
qed

theorem header_size_check_witness:
  "unat (hdr_data_sz (read_header (mem_of bad_size_buf) 0))
     \<noteq> unat (hdr_lines (read_header (mem_of bad_size_buf) 0)) * 6
       + unat (hdr_cells (read_header (mem_of bad_size_buf) 0)) * 12 + 14 \<and>
   raster_tobuf example_consts caller_out 640 480 (mem_of bad_size_buf) 33
     = (- 1, caller_out) \<and>
   unat (hdr_data_sz (read_header (mem_of one_cell_buf) 0))
     = unat (hdr_lines (read_header (mem_of one_cell_buf) 0)) * 6
       + unat (hdr_cells (read_header (mem_of one_cell_buf) 0)) * 12 + 14 \<and>
   unat (hdr_data_sz (read_header (mem_of one_cell_buf) 0)) \<le> unat (32 :: 64 word) \<and>
   declared_cells (mem_of one_cell_buf) 14
       (unat (hdr_lines (read_header (mem_of one_cell_buf) 0)))
     \<le> unat (hdr_cells (read_header (mem_of one_cell_buf) 0)) \<and>
   fst (raster_tobuf example_consts caller_out 640 480 (mem_of one_cell_buf) 32) = 1"
proof -
  have a: "unat (hdr_data_sz (read_header (mem_of bad_size_buf) 0))
     \<noteq> unat (hdr_lines (read_header (mem_of bad_size_buf) 0)) * 6
       + unat (hdr_cells (read_header (mem_of bad_size_buf) 0)) * 12 + 14"
    by code_simp
  have b: "unat (hdr_data_sz (read_header (mem_of one_cell_buf) 0))
     = unat (hdr_lines (read_header (mem_of one_cell_buf) 0)) * 6
       + unat (hdr_cells (read_header (mem_of one_cell_buf) 0)) * 12 + 14"
    by code_simp
  have c: "unat (hdr_data_sz (read_header (mem_of one_cell_buf) 0)) \<le> unat (32 :: 64 word)"
    by code_simp
  have d: "declared_cells (mem_of one_cell_buf) 14
       (unat (hdr_lines (read_header (mem_of one_cell_buf) 0)))
     \<le> unat (hdr_cells (read_header (mem_of one_cell_buf) 0))"
    by code_simp
  show ?thesis
    using a b c d
      header_size_check [where buf = "mem_of bad_size_buf" and bufsz = 33
        and K = example_consts and out = caller_out and max_w = 640 and max_h = 480]
      header_size_check [where buf = "mem_of one_cell_buf" and bufsz = 32
        and K = example_consts and out = caller_out and max_w = 640 and max_h = 480]
    by blast
qed

text \<open>
  Claim C1 as stated fails in the direction from the header to acceptance. The header of
  \<open>short_buf\<close> has \<open>data_sz = 26 = 2 * 6 + 0 * 12 + 14\<close> and the caller states 29
  bytes. The first line takes one cell, which leaves \<open>buf_sz = 29 - 14 - 12 = 3\<close>; the
  size test at the head of the line loop then returns \<open>-1\<close>. The six bytes of the
  line record are not taken off \<open>buf_sz\<close>, so the cell is read from byte 20 to byte
  31 of the memory although 29 bytes were stated.
\<close>

theorem consistent_header_refused_counterexample:
  "unat (hdr_data_sz (read_header (mem_of short_buf) 0))
     = unat (hdr_lines (read_header (mem_of short_buf) 0)) * 6
       + unat (hdr_cells (read_header (mem_of short_buf) 0)) * 12 + 14 \<and>
   unat (hdr_data_sz (read_header (mem_of short_buf) 0)) \<le> unat (29 :: 64 word) \<and>
   fst (raster_tobuf example_consts caller_out 640 480 (mem_of short_buf) 29) = - 1"
  by code_simp

text \<open>
  Claim C3 gives, for one cell at row 5 and column 3 in dirty-frame mode, the rectangle
  \<open>x1 = 3 * cell_w, y1 = 5 * cell_h, x2 = 4 * cell_w, y2 = 6 * cell_h\<close>. The code run
  on that buffer with cells of 8 by 16 in a frame of 640 by 480: the cell is drawn at
  (24, 80) and the rectangle is \<open>x1 = 24, y1 = 80, y2 = 96\<close>, but \<open>x2 = 40\<close>, which
  is \<open>5 * cell_w\<close>: \<open>draw_x\<close> has been moved past the cell when \<open>next_x\<close> adds
  \<open>cell_w\<close> to it once more.
\<close>

theorem single_cell_dirty_rect:
  "raster_tobuf example_consts caller_out 640 480 (mem_of one_cell_buf) 32 =
     (1, caller_out\<lparr> out_x1 := 24, out_y1 := 80, out_x2 := 40, out_y2 := 96,
           out_drawn := [Tui_pixelfont_draw 65 24 80 (SHMIF_RGBA 255 255 255 255)
                           (SHMIF_RGBA 0 0 0 255)] \<rparr>)"
  by code_simp

text \<open>
  The same buffer in a frame 36 pixels wide: the cell still fits (\<open>24 + 8 < 36\<close>)
  and is drawn, but \<open>next_x = 40\<close> is beyond \<open>max_w\<close> and \<open>x2\<close> stays 0, so
  the rectangle does not reach the cell that was drawn.
\<close>

lemma drawn_cell_right_of_rect:
  "raster_tobuf example_consts caller_out 36 480 (mem_of one_cell_buf) 32 =
     (1, caller_out\<lparr> out_x1 := 24, out_y1 := 80, out_x2 := 0, out_y2 := 96,
           out_drawn := [Tui_pixelfont_draw 65 24 80 (SHMIF_RGBA 255 255 255 255)
                           (SHMIF_RGBA 0 0 0 255)] \<rparr>)"
  by code_simp

text \<open>
  Claim C4 says that in full-frame mode every row between two declared lines is filled
  across with the background colour and that the rectangle is the whole frame. The
  code run on a buffer with lines at row 0 and row 2: the rectangle is
  \<open>(0, 0, 640, 480)\<close>, and the fill for row 1 is the one call
  \<open>draw_box_px(x = 0, y = 16, w = 8, h = 16)\<close>, one cell wide and not 640.
\<close>

theorem gap_fill_one_cell_wide:
  "raster_tobuf example_consts caller_out 640 480 (mem_of gap_buf) 50 =
     (1, caller_out\<lparr> out_x1 := 0, out_y1 := 0, out_x2 := 640, out_y2 := 480,
           out_drawn := [Tui_pixelfont_draw 65 0 0 (SHMIF_RGBA 255 255 255 255)
                           (SHMIF_RGBA 0 0 0 255),
                         Draw_box_px 0 16 8 16 (SHMIF_RGBA 0 0 0 255),
                         Tui_pixelfont_draw 66 0 32 (SHMIF_RGBA 255 255 255 255)
                           (SHMIF_RGBA 0 0 0 255)] \<rparr>)"
  by code_simp

text \<open>
  The cell loop never touches \<open>x1\<close>, \<open>y1\<close> or \<open>last_line\<close>; the line loop sets them
  from the line record before the cells of the line are read.
\<close>

lemma raster_cell_keeps:
  "x1 (raster_cell K max_w max_h alpha buf d) = x1 d \<and>
   y1 (raster_cell K max_w max_h alpha buf d) = y1 d \<and>
   last_line (raster_cell K max_w max_h alpha buf d) = last_line d"
  by (simp add: raster_cell_def Let_def split: prod.splits)

lemma raster_cells_keep:
  "x1 (raster_cells K max_w max_h alpha buf n d) = x1 d \<and>
   y1 (raster_cells K max_w max_h alpha buf n d) = y1 d \<and>
   last_line (raster_cells K max_w max_h alpha buf n d) = last_line d"
  by (induction n arbitrary: d) (simp_all add: raster_cell_keeps)

lemma raster_line_corners:
  "x1 (raster_line K update max_w max_h hdr buf d) =
     (if ucast (offset (read_line buf (pos d))) * cell_w (ctx d) < ucast (x1 d)
      then ucast (ucast (offset (read_line buf (pos d))) * cell_w (ctx d)) else x1 d) \<and>
   y1 (raster_line K update max_w max_h hdr buf d) =
     (if ucast (start_line (read_line buf (pos d))) * cell_h (ctx d)
          < ucast (if update \<and> cur_y d = - 1
                   then ucast (ucast (start_line (read_line buf (pos d))) * cell_h (ctx d))
                   else y1 d)
      then ucast (ucast (start_line (read_line buf (pos d))) * cell_h (ctx d))
      else if update \<and> cur_y d = - 1
           then ucast (ucast (start_line (read_line buf (pos d))) * cell_h (ctx d))
           else y1 d) \<and>
   last_line (raster_line K update max_w max_h hdr buf d) =
     (if last_line d < ucast (start_line (read_line buf (pos d)))
      then ucast (start_line (read_line buf (pos d))) else last_line d)"
proof -
  define l where "l = read_line buf (pos d)"
  define bgc where
    "bgc = SHMIF_RGBA (hdr_bgc0 hdr) (hdr_bgc1 hdr) (hdr_bgc2 hdr) (hdr_bgc3 hdr)"
  define d1 where "d1 = d\<lparr> pos := pos d + unat raster_line_sz \<rparr>"
  define d2 where "d2 = (if last_line d1 < ucast (start_line l)
                then d1\<lparr> last_line := ucast (start_line l) \<rparr> else d1)"
  define d3 where "d3 = (if update \<and> cur_y d2 = - 1
                then d2\<lparr> y1 := ucast (ucast (start_line l) * cell_h (ctx d2)) \<rparr> else d2)"
  define d4 where "d4 = (if cur_y d3 \<noteq> ucast (start_line l)
                then (if \<not> update \<and> cur_y d3 \<noteq> - 1
                      then d3\<lparr> drawn := drawn d3 @
                             [Draw_box_px 0 (cur_y d3 * cell_h (ctx d3)) (cell_w (ctx d3))
                                (cell_h (ctx d3) * (ucast (start_line l) - cur_y d3)) bgc] \<rparr>
                      else d3) \<lparr> cur_y := ucast (start_line l) \<rparr>
                else d3)"
  define d5 where "d5 = d4\<lparr> draw_y := cur_y d4 * cell_h (ctx d4) \<rparr>"
  define d6 where
    "d6 = (if draw_y d5 < ucast (y1 d5) then d5\<lparr> y1 := ucast (draw_y d5) \<rparr> else d5)"
  define d7 where "d7 = d6\<lparr> draw_x := ucast (offset l) * cell_w (ctx d6) \<rparr>"
  define d8 where
    "d8 = (if draw_x d7 < ucast (x1 d7) then d7\<lparr> x1 := ucast (draw_x d7) \<rparr> else d7)"
  have rl: "raster_line K update max_w max_h hdr buf d =
      (raster_cells K max_w max_h (hdr_bgc3 hdr) buf (unat (ncells l)) d8)
        \<lparr> cur_y :=
            cur_y (raster_cells K max_w max_h (hdr_bgc3 hdr) buf (unat (ncells l)) d8) + 1 \<rparr>"
    unfolding raster_line_def Let_def d8_def d7_def d6_def d5_def d4_def d3_def d2_def d1_def
      l_def bgc_def by (rule refl)
  have s1: "ctx d1 = ctx d \<and> x1 d1 = x1 d \<and> y1 d1 = y1 d \<and> cur_y d1 = cur_y d \<and>
            last_line d1 = last_line d"
    by (simp add: d1_def)
  have s2: "ctx d2 = ctx d \<and> x1 d2 = x1 d \<and> y1 d2 = y1 d \<and> cur_y d2 = cur_y d \<and>
            last_line d2 = (if last_line d < ucast (start_line l) then ucast (start_line l)
                            else last_line d)"
    using s1 by (simp add: d2_def)
  have s3: "ctx d3 = ctx d \<and> x1 d3 = x1 d \<and> cur_y d3 = cur_y d \<and>
            last_line d3 = last_line d2 \<and>
            y1 d3 = (if update \<and> cur_y d = - 1
                     then ucast (ucast (start_line l) * cell_h (ctx d)) else y1 d)"
    using s2 by (simp add: d3_def)
  have s4: "ctx d4 = ctx d \<and> x1 d4 = x1 d \<and> cur_y d4 = ucast (start_line l) \<and>
            last_line d4 = last_line d2 \<and> y1 d4 = y1 d3"
    using s3 by (simp add: d4_def)
  have s5: "ctx d5 = ctx d \<and> x1 d5 = x1 d \<and> last_line d5 = last_line d2 \<and>
            y1 d5 = y1 d3 \<and> draw_y d5 = ucast (start_line l) * cell_h (ctx d)"
    using s4 by (simp add: d5_def)
  have s6: "ctx d6 = ctx d \<and> x1 d6 = x1 d \<and> last_line d6 = last_line d2 \<and>
            y1 d6 = (if ucast (start_line l) * cell_h (ctx d) < ucast (y1 d3)
                     then ucast (ucast (start_line l) * cell_h (ctx d)) else y1 d3)"
    using s5 by (simp add: d6_def)
  have s7: "x1 d7 = x1 d \<and> last_line d7 = last_line d2 \<and> y1 d7 = y1 d6 \<and>
            draw_x d7 = ucast (offset l) * cell_w (ctx d)"
    using s6 by (simp add: d7_def)
  have s8: "last_line d8 = last_line d2 \<and> y1 d8 = y1 d6 \<and>
            x1 d8 = (if ucast (offset l) * cell_w (ctx d) < ucast (x1 d)
                     then ucast (ucast (offset l) * cell_w (ctx d)) else x1 d)"
    using s7 by (simp add: d8_def)
  show ?thesis
    unfolding rl using s8 s6 s3 s2
    by (simp add: raster_cells_keep l_def)
qed

text \<open>
  Claim C5, as amended. A cell whose right edge \<open>draw_x + cell_w\<close> lies beyond
  \<open>max_w\<close>, or whose lower edge \<open>draw_y + cell_h\<close> lies beyond \<open>max_h\<close> (the two
  sums taken in \<open>size_t\<close> without wrapping), is read and dropped: the pass of the cell
  loop that handles it makes no drawing call and does not raise \<open>x2\<close>. The other
  corners are not kept per cell. Whatever the cells of a line are and whether or not
  they are drawn, the line record lowers \<open>x1\<close> to \<open>offset * cell_w\<close> and \<open>y1\<close> to
  \<open>start_line * cell_h\<close> (in dirty-frame mode the first line sets \<open>y1\<close>) and raises
  \<open>last_line\<close>, from which \<open>y2\<close> is computed, to \<open>start_line\<close>.
\<close>

theorem oob_cell_discarded:
  "(unat (draw_x d) + unat (cell_w (ctx d)) < 2 ^ 64 \<and>
    unat (draw_y d) + unat (cell_h (ctx d)) < 2 ^ 64 \<and>
    (unat max_w < unat (draw_x d) + unat (cell_w (ctx d)) \<or>
     unat max_h < unat (draw_y d) + unat (cell_h (ctx d)))
    \<longrightarrow> drawn (raster_cell K max_w max_h alpha buf d) = drawn d \<and>
        x2 (raster_cell K max_w max_h alpha buf d) = x2 d) \<and>
   x1 (raster_line K update max_w max_h hdr buf e) =
     (if ucast (offset (read_line buf (pos e))) * cell_w (ctx e) < ucast (x1 e)
      then ucast (ucast (offset (read_line buf (pos e))) * cell_w (ctx e)) else x1 e) \<and>
   y1 (raster_line K update max_w max_h hdr buf e) =
     (if ucast (start_line (read_line buf (pos e))) * cell_h (ctx e)
          < ucast (if update \<and> cur_y e = - 1
                   then ucast (ucast (start_line (read_line buf (pos e))) * cell_h (ctx e))
                   else y1 e)
      then ucast (ucast (start_line (read_line buf (pos e))) * cell_h (ctx e))
      else if update \<and> cur_y e = - 1
           then ucast (ucast (start_line (read_line buf (pos e))) * cell_h (ctx e))
           else y1 e) \<and>
   last_line (raster_line K update max_w max_h hdr buf e) =
     (if last_line e < ucast (start_line (read_line buf (pos e)))
      then ucast (start_line (read_line buf (pos e))) else last_line e)"
proof -
  have cell: "drawn (raster_cell K max_w max_h alpha buf d) = drawn d \<and>
              x2 (raster_cell K max_w max_h alpha buf d) = x2 d"
    if nx: "unat (draw_x d) + unat (cell_w (ctx d)) < 2 ^ 64"
      and ny: "unat (draw_y d) + unat (cell_h (ctx d)) < 2 ^ 64"
      and oob: "unat max_w < unat (draw_x d) + unat (cell_w (ctx d)) \<or>
                unat max_h < unat (draw_y d) + unat (cell_h (ctx d))"
  proof -
    have ux: "unat (draw_x d + cell_w (ctx d)) = unat (draw_x d) + unat (cell_w (ctx d))"
      using nx by (simp add: unat_word_ariths)
    have uy: "unat (draw_y d + cell_h (ctx d)) = unat (draw_y d) + unat (cell_h (ctx d))"
      using ny by (simp add: unat_word_ariths)
    have "\<not> (draw_x d + cell_w (ctx d) < max_w \<and> draw_y d + cell_h (ctx d) < max_h)"
      using oob ux uy by (auto simp: word_less_nat_alt)
    then show ?thesis
      by (auto simp: raster_cell_def Let_def)
  qed
  show ?thesis
    using cell raster_line_corners [of K update max_w max_h hdr buf e] by blast
qed

theorem oob_cell_discarded_witness:
  "unat (draw_x edge_dec) + unat (cell_w (ctx edge_dec)) < 2 ^ 64 \<and>
   unat (draw_y edge_dec) + unat (cell_h (ctx edge_dec)) < 2 ^ 64 \<and>
   unat (640 :: 64 word) < unat (draw_x edge_dec) + unat (cell_w (ctx edge_dec)) \<and>
   drawn (raster_cell example_consts 640 480 255 (mem_of one_cell_buf) edge_dec) = [] \<and>
   x2 (raster_cell example_consts 640 480 255 (mem_of one_cell_buf) edge_dec) = 0"
proof -
  have a: "unat (draw_x edge_dec) + unat (cell_w (ctx edge_dec)) < 2 ^ 64"
    by (simp add: edge_dec_def bitmap_ctx_def)
  have b: "unat (draw_y edge_dec) + unat (cell_h (ctx edge_dec)) < 2 ^ 64"
    by (simp add: edge_dec_def bitmap_ctx_def)
  have c: "unat (640 :: 64 word) < unat (draw_x edge_dec) + unat (cell_w (ctx edge_dec))"
    by (simp add: edge_dec_def bitmap_ctx_def)
  have e: "drawn edge_dec = [] \<and> x2 edge_dec = 0"
    by (simp add: edge_dec_def)
  have "drawn (raster_cell example_consts 640 480 255 (mem_of one_cell_buf) edge_dec)
          = drawn edge_dec \<and>
        x2 (raster_cell example_consts 640 480 255 (mem_of one_cell_buf) edge_dec)
          = x2 edge_dec"
    using a b c
      oob_cell_discarded [where d = edge_dec and max_w = 640 and max_h = 480
        and K = example_consts and alpha = 255 and buf = "mem_of one_cell_buf"]
    by blast
  then show ?thesis using a b c e by simp
qed

text \<open>
  Claim C5 as stated fails for the decoder's rectangle. \<open>two_line_buf\<close> is the one-cell
  buffer with a second line at row 40, column 1, in a frame 480 pixels high: the cell
  of that line lies below the buffer (\<open>640 + 16 > 480\<close>) and is dropped, the drawing
  calls are those of the one-cell buffer, and yet the rectangle goes from
  \<open>(24, 80, 40, 96)\<close> to \<open>(8, 80, 40, 656)\<close>.
\<close>

theorem dropped_cell_line_moves_corners_counterexample:
  "raster_tobuf example_consts caller_out 640 480 (mem_of one_cell_buf) 32 =
     (1, caller_out\<lparr> out_x1 := 24, out_y1 := 80, out_x2 := 40, out_y2 := 96,
           out_drawn := [Tui_pixelfont_draw 65 24 80 (SHMIF_RGBA 255 255 255 255)
                           (SHMIF_RGBA 0 0 0 255)] \<rparr>) \<and>
   raster_tobuf example_consts caller_out 640 480 (mem_of two_line_buf) 50 =
     (1, caller_out\<lparr> out_x1 := 8, out_y1 := 80, out_x2 := 40, out_y2 := 656,
           out_drawn := [Tui_pixelfont_draw 65 24 80 (SHMIF_RGBA 255 255 255 255)
                           (SHMIF_RGBA 0 0 0 255)] \<rparr>)"
  by code_simp

text \<open>
  The whole decoder on the one-cell buffer in a frame 30 pixels wide: the cell is
  dropped, nothing is drawn and \<open>x2\<close> stays 0. The corners \<open>x1\<close>, \<open>y1\<close> and
  \<open>y2\<close> are set from the line record, before and after its cells are read.
\<close>

lemma dropped_cell_whole_decode:
  "raster_tobuf example_consts caller_out 30 480 (mem_of one_cell_buf) 32 =
     (1, caller_out\<lparr> out_x1 := 24, out_y1 := 80, out_x2 := 0, out_y2 := 96 \<rparr>)"
  by code_simp

text \<open>
  Claim C6. A cell whose attribute byte (byte 6 of the cell) has the \<open>SKIP\<close> bit set
  moves \<open>draw_x\<close> on by \<open>cell_w\<close>, makes no drawing call and leaves the dirty
  rectangle as it was.
\<close>

theorem skip_cell_advances:
  assumes "bit (buf (pos d + 6)) (CATTR_SKIP K)"
  shows "draw_x (raster_cell K max_w max_h alpha buf d) = draw_x d + cell_w (ctx d) \<and>
         drawn (raster_cell K max_w max_h alpha buf d) = drawn d \<and>
         x1 (raster_cell K max_w max_h alpha buf d) = x1 d \<and>
         y1 (raster_cell K max_w max_h alpha buf d) = y1 d \<and>
         x2 (raster_cell K max_w max_h alpha buf d) = x2 d \<and>
         y2 (raster_cell K max_w max_h alpha buf d) = y2 d"
  using assms by (simp add: raster_cell_def Let_def has_attr_def unpack_cell_def)

theorem skip_cell_advances_witness:
  "bit (mem_of skip_cell_buf (pos mid_dec + 6)) (CATTR_SKIP example_consts) \<and>
   draw_x (raster_cell example_consts 640 480 255 (mem_of skip_cell_buf) mid_dec) = 32 \<and>
   drawn (raster_cell example_consts 640 480 255 (mem_of skip_cell_buf) mid_dec) = [] \<and>
   x1 (raster_cell example_consts 640 480 255 (mem_of skip_cell_buf) mid_dec) = 24 \<and>
   y1 (raster_cell example_consts 640 480 255 (mem_of skip_cell_buf) mid_dec) = 80 \<and>
   x2 (raster_cell example_consts 640 480 255 (mem_of skip_cell_buf) mid_dec) = 0 \<and>
   y2 (raster_cell example_consts 640 480 255 (mem_of skip_cell_buf) mid_dec) = 0"
proof -
  have a: "bit (mem_of skip_cell_buf (pos mid_dec + 6)) (CATTR_SKIP example_consts)"
    by code_simp
  have e: "draw_x mid_dec + cell_w (ctx mid_dec) = 32 \<and> drawn mid_dec = [] \<and>
           x1 mid_dec = 24 \<and> y1 mid_dec = 80 \<and> x2 mid_dec = 0 \<and> y2 mid_dec = 0"
    by (simp add: mid_dec_def bitmap_ctx_def)
  show ?thesis
    using a e
      skip_cell_advances [where d = mid_dec and max_w = 640 and max_h = 480
        and K = example_consts and alpha = 255 and buf = "mem_of skip_cell_buf"]
    by simp
qed

end
